theory Spec2Isabelle
  imports Main "HOL-Library.Sublist"
begin

section \<open>Values, configuration and the outside world\<close>

text \<open>
  The fields of a search result are strings, or are missing or null: the values the script
  handles are \<open>None\<close> and \<open>str\<close>. Strings are byte lists (UTF-8); every character
  the script inspects or inserts by itself is ASCII, except the dash of the headings, which
  is written out as its three bytes. A Python \<open>dict\<close> is a map from keys to values.
\<close>

datatype pyval = PNone | PStr string

type_synonym pydict = "string \<rightharpoonup> pyval"

text \<open>The parsed body of a search response: an object whose \<open>items\<close> field, when
  present, is an array of objects with string-or-null fields.\<close>

type_synonym search_json = "string \<rightharpoonup> pydict list"

text \<open>The parameters of one request to the search endpoint, and what comes back: no
  answer within the timeout, a transport error, or a status with a body (\<open>None\<close> when
  the body is not JSON).\<close>

datatype params =
  Params (p_key: "string option") (p_cx: "string option") (p_q: string) (p_num: nat)

datatype http_outcome = Timeout | ConnectionError | Response nat "search_json option"

text \<open>The message built on lines 83--87, and the calls made on the SMTP connection.
  \<open>Connect\<close> carries host, port and timeout; \<open>Sendmail\<close> carries the sender, the
  list of recipients and the text of the message.\<close>

datatype email =
  Email (msg_Subject: string) (msg_From: "string option") (msg_To: "string option")
        (msg_html: string)

datatype smtp_cmd =
    Connect string int nat
  | Ehlo
  | Starttls
  | Login "string option" "string option"
  | Sendmail "string option" "string option list" string
  | Quit

datatype exn =
    SystemExit string
  | RuntimeError string
  | TypeError
  | AttributeError
  | KeyError string
  | RequestsTimeout
  | RequestsConnectionError
  | HTTPError nat
  | JSONDecodeError
  | UnicodeEncodeError
  | HeaderParseError
  | HeaderWriteError
  | SMTPException smtp_cmd

text \<open>
  The two calls into the \<open>email\<close> package that can raise. They are inputs, not defined
  here: \<open>MIMEText(html_body, "html")\<close> on line 87 gives the exception it raises, if any
  (a body that cannot be encoded), and \<open>msg.as_string()\<close> on line 96 gives the text of
  the message or the exception raised while writing it (a subject, sender or recipient
  that holds a line feed).
\<close>

record mail_lib =
  MIMEText :: "string \<Rightarrow> exn option"
  as_string :: "email \<Rightarrow> exn + string"

text \<open>\<open>except Exception\<close> catches every exception but those deriving from
  \<open>BaseException\<close> only; \<open>SystemExit\<close> is the one of them the script raises.\<close>

fun is_Exception :: "exn \<Rightarrow> bool" where
  "is_Exception (SystemExit _) = False"
| "is_Exception _ = True"

record config =
  API_KEY :: "string option"
  CX :: "string option"
  RECIPIENT :: "string option"
  SENDER :: "string option"
  SMTP_HOST :: string
  SMTP_PORT :: int
  SMTP_USER :: "string option"
  SMTP_PASS :: "string option"
  TOP_STARTUPS :: "string list"

text \<open>Truth value of an environment value: unset and the empty string are false.\<close>

fun truthy :: "string option \<Rightarrow> bool" where
  "truthy None = False"
| "truthy (Some s) = (s \<noteq> [])"

fun pytruthy :: "pyval \<Rightarrow> bool" where
  "pytruthy PNone = False"
| "pytruthy (PStr s) = (s \<noteq> [])"

definition ROLES :: "string list" where
  "ROLES = [''Frontend Developer'', ''Backend Developer'',
            ''MERN Full Stack Developer'', ''Salesforce Developer'']"

definition MAX_PER_ROLE :: nat where
  "MAX_PER_ROLE = 8"

abbreviation dq :: char where "dq \<equiv> CHR 0x22"
abbreviation sq :: char where "sq \<equiv> CHR 0x27"

section \<open>Query builder\<close>

text \<open>Lines 105--114 of \<open>main\<close>: the loop over \<open>TOP_STARTUPS\<close> appends one query per
  organisation, then the three generic queries are appended.\<close>

fun startup_queries :: "string \<Rightarrow> string list \<Rightarrow> string list \<Rightarrow> string list" where
  "startup_queries role [] queries = queries"
| "startup_queries role (d # ds) queries =
     (if CHR ''.'' \<in> set d
      then startup_queries role ds (queries @ [role @ '' site:'' @ d])
      else startup_queries role ds (queries @ [role @ '' '' @ [dq] @ d @ [dq]]))"

definition build_queries :: "string \<Rightarrow> string list \<Rightarrow> string list" where
  "build_queries role top_startups =
     (let queries = [];
          queries = (if top_startups \<noteq> [] then startup_queries role top_startups queries
                     else queries);
          queries = queries @ [role @ '' startup hiring''];
          queries = queries @ [role @ '' '' @ [dq] @ ''we are hiring'' @ [dq]];
          queries = queries @ [role @ '' '' @ [dq] @ ''hiring now'' @ [dq]]
      in queries)"

section \<open>Search client\<close>

text \<open>
  Everything the script does to the outside world is recorded, in order, in a trace of
  events; a request and a call on the mail server are recorded with their outcome, and
  \<open>time.sleep(0.4)\<close> as a pause of 400 milliseconds. The network and the mail server
  are functions of the trace so far and the call made: they may answer the same call
  differently at different times.
\<close>

datatype log_line = SearchError string exn | SentEmail "string option"

datatype event =
    HttpGet params http_outcome
  | Sleep nat
  | Print log_line
  | Smtp smtp_cmd bool

type_synonym trace = "event list"
type_synonym http_world = "trace \<Rightarrow> params \<Rightarrow> http_outcome"
type_synonym smtp_world = "trace \<Rightarrow> smtp_cmd \<Rightarrow> bool"

text \<open>\<open>resp.raise_for_status()\<close> followed by \<open>resp.json()\<close>: the status check raises
  for the statuses 400 to 599.\<close>

fun read_response :: "http_outcome \<Rightarrow> exn + search_json" where
  "read_response Timeout = Inl RequestsTimeout"
| "read_response ConnectionError = Inl RequestsConnectionError"
| "read_response (Response status body) =
     (if 400 \<le> status \<and> status < 600 then Inl (HTTPError status)
      else case body of None \<Rightarrow> Inl JSONDecodeError | Some js \<Rightarrow> Inr js)"

text \<open>\<open>google_search\<close>: the guard, the request, and the reading of the response.\<close>

definition google_search ::
  "config \<Rightarrow> http_world \<Rightarrow> string \<Rightarrow> nat \<Rightarrow> trace \<Rightarrow> (exn + search_json) \<times> trace" where
  "google_search cfg http query n tr =
     (if \<not> (truthy (API_KEY cfg) \<and> truthy (CX cfg))
      then (Inl (RuntimeError ''GCSE_API_KEY and GCSE_CX environment variables are required.''), tr)
      else
        (let ps = Params (API_KEY cfg) (CX cfg) query (min n 10);
             resp = http tr ps
         in (read_response resp, tr @ [HttpGet ps resp])))"

text \<open>\<open>d.get(k, default)\<close> and \<open>d[k]\<close>.\<close>

definition py_get :: "pydict \<Rightarrow> string \<Rightarrow> pyval \<Rightarrow> pyval" where
  "py_get d k dflt = (case d k of None \<Rightarrow> dflt | Some v \<Rightarrow> v)"

definition py_index :: "pydict \<Rightarrow> string \<Rightarrow> exn + pyval" where
  "py_index d k = (case d k of None \<Rightarrow> Inl (KeyError k) | Some v \<Rightarrow> Inr v)"

text \<open>The item \<open>extract_items\<close> builds from one raw item: a dict with exactly the keys
  \<open>title\<close>, \<open>link\<close> and \<open>snippet\<close>.\<close>

definition extract_item :: "pydict \<Rightarrow> pydict" where
  "extract_item it =
     (let title = py_get it ''title'' PNone;
          link = py_get it ''link'' PNone;
          snippet = py_get it ''snippet'' (PStr [])
      in [''title'' \<mapsto> title, ''link'' \<mapsto> link, ''snippet'' \<mapsto> snippet])"

fun extract_loop :: "pydict list \<Rightarrow> pydict list \<Rightarrow> pydict list" where
  "extract_loop [] items = items"
| "extract_loop (it # its) items = extract_loop its (items @ [extract_item it])"

definition extract_items :: "search_json \<Rightarrow> pydict list" where
  "extract_items search_json =
     extract_loop (case search_json ''items'' of None \<Rightarrow> [] | Some its \<Rightarrow> its) []"

section \<open>Aggregator\<close>

text \<open>\<open>a + b\<close> on the values at hand: only two strings can be added.\<close>

fun py_add :: "pyval \<Rightarrow> pyval \<Rightarrow> exn + pyval" where
  "py_add (PStr a) (PStr b) = Inr (PStr (a @ b))"
| "py_add _ _ = Inl TypeError"

text \<open>Line 125: \<open>key = it.get("link") or (it.get("title","") + it.get("snippet",""))\<close>.
  The sum is evaluated only when the link is false.\<close>

definition dedup_key :: "pydict \<Rightarrow> exn + pyval" where
  "dedup_key it =
     (let link = py_get it ''link'' PNone
      in if pytruthy link then Inr link
         else py_add (py_get it ''title'' (PStr [])) (py_get it ''snippet'' (PStr [])))"

text \<open>Lines 124--131, the loop over the items of one response. It returns the updated
  \<open>seen\<close> and \<open>collected\<close>; the caller tests the length again to tell a \<open>break\<close>.\<close>

fun item_loop ::
  "pydict list \<Rightarrow> (pyval \<rightharpoonup> bool) \<Rightarrow> pydict list \<Rightarrow> exn + ((pyval \<rightharpoonup> bool) \<times> pydict list)" where
  "item_loop [] seen collected = Inr (seen, collected)"
| "item_loop (it # items) seen collected =
     (case dedup_key it of
        Inl e \<Rightarrow> Inl e
      | Inr key \<Rightarrow>
          if key \<in> dom seen then item_loop items seen collected
          else (let seen' = seen(key \<mapsto> True);
                    collected' = collected @ [it]
                in if length collected' \<ge> MAX_PER_ROLE then Inr (seen', collected')
                   else item_loop items seen' collected'))"

text \<open>Lines 117--134, the loop over the queries of one role.\<close>

fun query_loop ::
  "config \<Rightarrow> http_world \<Rightarrow> string list \<Rightarrow> (pyval \<rightharpoonup> bool) \<Rightarrow> pydict list \<Rightarrow> trace
     \<Rightarrow> (exn + pydict list) \<times> trace" where
  "query_loop cfg http [] seen collected tr = (Inr collected, tr)"
| "query_loop cfg http (q # queries) seen collected tr =
     (case google_search cfg http q MAX_PER_ROLE tr of
        (Inl e, tr1) \<Rightarrow>
          if is_Exception e
          then query_loop cfg http queries seen collected (tr1 @ [Print (SearchError q e)])
          else (Inl e, tr1)
      | (Inr js, tr1) \<Rightarrow>
          (case item_loop (extract_items js) seen collected of
             Inl e \<Rightarrow> (Inl e, tr1)
           | Inr (seen', collected') \<Rightarrow>
               if length collected' \<ge> MAX_PER_ROLE then (Inr collected', tr1)
               else query_loop cfg http queries seen' collected' (tr1 @ [Sleep 400])))"

text \<open>Lines 105--135 for one role: build the queries, start from an empty \<open>seen\<close> and
  an empty \<open>collected\<close>.\<close>

definition search_role ::
  "config \<Rightarrow> http_world \<Rightarrow> string \<Rightarrow> trace \<Rightarrow> (exn + pydict list) \<times> trace" where
  "search_role cfg http role tr =
     query_loop cfg http (build_queries role (TOP_STARTUPS cfg)) Map.empty [] tr"

text \<open>\<open>results[role] = collected\<close> on a dict that keeps insertion order.\<close>

fun dict_set :: "('k \<times> 'v) list \<Rightarrow> 'k \<Rightarrow> 'v \<Rightarrow> ('k \<times> 'v) list" where
  "dict_set [] k v = [(k, v)]"
| "dict_set ((k', v') # kvs) k v =
     (if k' = k then (k, v) # kvs else (k', v') # dict_set kvs k v)"

fun role_loop ::
  "config \<Rightarrow> http_world \<Rightarrow> string list \<Rightarrow> (string \<times> pydict list) list \<Rightarrow> trace
     \<Rightarrow> (exn + (string \<times> pydict list) list) \<times> trace" where
  "role_loop cfg http [] results tr = (Inr results, tr)"
| "role_loop cfg http (role # roles) results tr =
     (case search_role cfg http role tr of
        (Inl e, tr1) \<Rightarrow> (Inl e, tr1)
      | (Inr collected, tr1) \<Rightarrow> role_loop cfg http roles (dict_set results role collected) tr1)"

section \<open>Report renderer\<close>

text \<open>\<open>str.replace\<close> of a single character, and \<open>html.escape\<close> with its default
  \<open>quote=True\<close>: five replacements, the ampersand first.\<close>

definition replace_char :: "char \<Rightarrow> string \<Rightarrow> string \<Rightarrow> string" where
  "replace_char c r s = concat (map (\<lambda>x. if x = c then r else [x]) s)"

definition html_escape :: "string \<Rightarrow> string" where
  "html_escape s =
     (let s = replace_char CHR ''&'' ''&amp;'' s;
          s = replace_char CHR ''<'' ''&lt;'' s;
          s = replace_char CHR ''>'' ''&gt;'' s;
          s = replace_char dq ''&quot;'' s;
          s = replace_char sq ''&#x27;'' s
      in s)"

text \<open>\<open>html.escape\<close> on a value (it calls \<open>replace\<close>, which \<open>None\<close> does not have),
  and the text an f-string inserts for a value.\<close>

fun py_html_escape :: "pyval \<Rightarrow> exn + string" where
  "py_html_escape PNone = Inl AttributeError"
| "py_html_escape (PStr s) = Inr (html_escape s)"

fun py_format :: "pyval \<Rightarrow> string" where
  "py_format PNone = ''None''"
| "py_format (PStr s) = s"

definition em_dash :: string where
  "em_dash = [CHR 0xE2, CHR 0x80, CHR 0x94]"

definition digit_char :: "nat \<Rightarrow> char" where
  "digit_char d = ''0123456789'' ! d"

function str_nat :: "nat \<Rightarrow> string" where
  "str_nat n = (if n < 10 then [digit_char n] else str_nat (n div 10) @ [digit_char (n mod 10)])"
  by pat_completeness auto
termination
  by (relation "measure id") auto

text \<open>Lines 72--75, one list entry. \<open>it['link']\<close> in \<open>it['title'] or it['link']\<close> is
  read only when the title is false.\<close>

definition render_item :: "pydict \<Rightarrow> exn + string" where
  "render_item it =
     (case py_index it ''title'' of
        Inl e \<Rightarrow> Inl e
      | Inr t \<Rightarrow>
          (case (if pytruthy t then Inr t else py_index it ''link'') of
             Inl e \<Rightarrow> Inl e
           | Inr shown \<Rightarrow>
               (case py_html_escape shown of
                  Inl e \<Rightarrow> Inl e
                | Inr title \<Rightarrow>
                    (case py_index it ''link'' of
                       Inl e \<Rightarrow> Inl e
                     | Inr link \<Rightarrow>
                         (case py_html_escape (py_get it ''snippet'' (PStr [])) of
                            Inl e \<Rightarrow> Inl e
                          | Inr snippet \<Rightarrow>
                              Inr (''<li><a href='' @ [sq] @ py_format link @ [sq] @ ''>''
                                   @ title @ ''</a><br/><small>'' @ snippet
                                   @ ''</small></li>''))))))"

fun render_items :: "pydict list \<Rightarrow> string \<Rightarrow> exn + string" where
  "render_items [] body = Inr body"
| "render_items (it # items) body =
     (case render_item it of
        Inl e \<Rightarrow> Inl e
      | Inr li \<Rightarrow> render_items items (body @ li))"

definition role_heading :: "string \<Rightarrow> nat \<Rightarrow> string" where
  "role_heading role n =
     ''<h3>'' @ html_escape role @ '' '' @ em_dash @ '' '' @ str_nat n @ '' results</h3>''
     @ [CHR 0x0A] @ ''<ul>''"

fun render_roles :: "(string \<times> pydict list) list \<Rightarrow> string \<Rightarrow> exn + string" where
  "render_roles [] body = Inr body"
| "render_roles ((role, items) # rest) body =
     (let body1 = body @ role_heading role (length items);
          body2 = (if items = [] then body1 @ ''<li>No results found.</li>'' else body1)
      in case render_items items body2 of
           Inl e \<Rightarrow> Inl e
         | Inr body3 \<Rightarrow> render_roles rest (body3 @ ''</ul>''))"

text \<open>\<open>build_html_report\<close>; the formatted time of the run is an input.\<close>

definition build_html_report :: "string \<Rightarrow> (string \<times> pydict list) list \<Rightarrow> exn + string" where
  "build_html_report now results_by_role =
     (let header = ''<h2>Job search results '' @ em_dash @ '' '' @ now @ ''</h2>'';
          body = header
      in case render_roles results_by_role body of
           Inl e \<Rightarrow> Inl e
         | Inr body' \<Rightarrow>
             Inr (''<html><body>'' @ (body' @ ''<hr/><p>Generated automatically.</p>'')
                  @ ''</body></html>''))"

section \<open>Mailer\<close>

definition smtp_call :: "smtp_world \<Rightarrow> smtp_cmd \<Rightarrow> trace \<Rightarrow> (exn + unit) \<times> trace" where
  "smtp_call smtp cmd tr =
     (let ok = smtp tr cmd
      in (if ok then Inr () else Inl (SMTPException cmd), tr @ [Smtp cmd ok]))"

text \<open>Lines 91--96, the body of the \<open>try\<close>. On line 96 the argument \<open>msg.as_string()\<close>
  is evaluated before \<open>sendmail\<close> is called: when it raises, nothing is sent.\<close>

definition smtp_session ::
  "config \<Rightarrow> mail_lib \<Rightarrow> smtp_world \<Rightarrow> email \<Rightarrow> trace \<Rightarrow> (exn + unit) \<times> trace" where
  "smtp_session cfg lib smtp msg tr =
     (case smtp_call smtp Ehlo tr of
        (Inl e, tr1) \<Rightarrow> (Inl e, tr1)
      | (Inr _, tr1) \<Rightarrow>
          (case (if SMTP_PORT cfg = 587
                 then (case smtp_call smtp Starttls tr1 of
                         (Inl e, tr2) \<Rightarrow> (Inl e, tr2)
                       | (Inr _, tr2) \<Rightarrow> smtp_call smtp Ehlo tr2)
                 else (Inr (), tr1)) of
             (Inl e, tr3) \<Rightarrow> (Inl e, tr3)
           | (Inr _, tr3) \<Rightarrow>
               (case smtp_call smtp (Login (SMTP_USER cfg) (SMTP_PASS cfg)) tr3 of
                  (Inl e, tr4) \<Rightarrow> (Inl e, tr4)
                | (Inr _, tr4) \<Rightarrow>
                    (case as_string lib msg of
                       Inl e \<Rightarrow> (Inl e, tr4)
                     | Inr text \<Rightarrow>
                         smtp_call smtp (Sendmail (SENDER cfg) [RECIPIENT cfg] text) tr4))))"

text \<open>\<open>send_email\<close>: the guard, the message (line 87 can raise, before any
  connection), the connection (made before the \<open>try\<close>), the session, and \<open>s.quit()\<close>
  in the \<open>finally\<close>; an exception of \<open>quit\<close> replaces the one of the session.\<close>

definition send_email ::
  "config \<Rightarrow> mail_lib \<Rightarrow> smtp_world \<Rightarrow> string \<Rightarrow> string \<Rightarrow> trace
     \<Rightarrow> (exn + unit) \<times> trace" where
  "send_email cfg lib smtp subject html_body tr =
     (if \<not> (truthy (SMTP_PASS cfg) \<and> truthy (SENDER cfg) \<and> truthy (RECIPIENT cfg))
      then (Inl (RuntimeError ''SMTP and email environment variables required.''), tr)
      else
        (case MIMEText lib html_body of
           Some e \<Rightarrow> (Inl e, tr)
         | None \<Rightarrow>
             (let msg = Email subject (SENDER cfg) (RECIPIENT cfg) html_body
              in case smtp_call smtp (Connect (SMTP_HOST cfg) (SMTP_PORT cfg) 30) tr of
                   (Inl e, tr1) \<Rightarrow> (Inl e, tr1)
                 | (Inr _, tr1) \<Rightarrow>
                     (case smtp_session cfg lib smtp msg tr1 of
                        (r, tr2) \<Rightarrow>
                          (case smtp_call smtp Quit tr2 of
                             (Inl e, tr3) \<Rightarrow> (Inl e, tr3)
                           | (Inr _, tr3) \<Rightarrow> (r, tr3))))))"

section \<open>Orchestrator\<close>

text \<open>\<open>main\<close>, from an empty trace; the two formatted times are inputs.\<close>

definition main ::
  "config \<Rightarrow> mail_lib \<Rightarrow> string \<Rightarrow> string \<Rightarrow> http_world \<Rightarrow> smtp_world
     \<Rightarrow> (exn + unit) \<times> trace" where
  "main cfg lib now today http smtp =
     (if \<not> (truthy (API_KEY cfg) \<and> truthy (CX cfg) \<and> truthy (RECIPIENT cfg)
             \<and> truthy (SENDER cfg) \<and> truthy (SMTP_PASS cfg))
      then (Inl (SystemExit ''Missing required environment variables. See script header.''), [])
      else
        (case role_loop cfg http ROLES [] [] of
           (Inl e, tr1) \<Rightarrow> (Inl e, tr1)
         | (Inr results, tr1) \<Rightarrow>
             (case build_html_report now results of
                Inl e \<Rightarrow> (Inl e, tr1)
              | Inr html_report \<Rightarrow>
                  (let subject = ''Daily job digest '' @ em_dash @ '' '' @ today
                   in case send_email cfg lib smtp subject html_report tr1 of
                        (Inl e, tr2) \<Rightarrow> (Inl e, tr2)
                      | (Inr _, tr2) \<Rightarrow> (Inr (), tr2 @ [Print (SentEmail (RECIPIENT cfg))])))))"

section \<open>Notions used to state the properties\<close>

text \<open>The items of a list that carry a key no earlier item carries, in the order of the
  list: the first occurrence of every key.\<close>

definition first_occurrences :: "('a \<Rightarrow> 'k) \<Rightarrow> 'a list \<Rightarrow> 'a list" where
  "first_occurrences f xs =
     map (\<lambda>i. xs ! i) (filter (\<lambda>i. f (xs ! i) \<notin> f ` set (take i xs)) [0..<length xs])"

text \<open>The items the search client handed to the aggregator along a trace: those of every
  request that \<open>google_search\<close> answered with a parsed body, in order.\<close>

fun returned_items :: "trace \<Rightarrow> pydict list" where
  "returned_items [] = []"
| "returned_items (HttpGet ps resp # evs) =
     (case read_response resp of Inl e \<Rightarrow> [] | Inr js \<Rightarrow> extract_items js) @ returned_items evs"
| "returned_items (ev # evs) = returned_items evs"

text \<open>What \<open>html.escape\<close> makes of one character.\<close>

fun escape_char :: "char \<Rightarrow> string" where
  "escape_char c =
     (if c = CHR ''&'' then ''&amp;''
      else if c = CHR ''<'' then ''&lt;''
      else if c = CHR ''>'' then ''&gt;''
      else if c = dq then ''&quot;''
      else if c = sq then ''&#x27;''
      else [c])"

text \<open>The calls of a mail session in which nothing fails, for the text of the message.\<close>

definition session_cmds :: "config \<Rightarrow> string \<Rightarrow> smtp_cmd list" where
  "session_cmds cfg text =
     [Connect (SMTP_HOST cfg) (SMTP_PORT cfg) 30, Ehlo]
     @ (if SMTP_PORT cfg = 587 then [Starttls, Ehlo] else [])
     @ [Login (SMTP_USER cfg) (SMTP_PASS cfg),
        Sendmail (SENDER cfg) [RECIPIENT cfg] text,
        Quit]"

text \<open>The two kinds of configuration a diagnostic could name.\<close>

datatype config_category = SearchAPI | EmailSMTP

section \<open>A concrete run\<close>

text \<open>A complete configuration with one target organisation, two results of the search
  engine, and a network that answers the organisation query of the role
  \<open>Backend Developer\<close> with these results (the first one twice), times out on the
  first generic query and returns an object without \<open>items\<close> otherwise.\<close>

definition example_cfg :: config where
  "example_cfg =
     \<lparr>API_KEY = Some ''key'', CX = Some ''cx'', RECIPIENT = Some ''to@example.org'',
      SENDER = Some ''from@example.org'', SMTP_HOST = ''smtp.gmail.com'', SMTP_PORT = 587,
      SMTP_USER = Some ''from@example.org'', SMTP_PASS = Some ''secret'',
      TOP_STARTUPS = [''stripe.com'']\<rparr>"

definition job1 :: pydict where
  "job1 = [''title'' \<mapsto> PStr ''C & <C++> Engineer'',
           ''link'' \<mapsto> PStr ''https://stripe.com/jobs/1?a=1&b=2'',
           ''snippet'' \<mapsto> PStr ''R&D'']"

definition job2 :: pydict where
  "job2 = [''title'' \<mapsto> PStr ''Platform Engineer'',
           ''link'' \<mapsto> PStr ''https://stripe.com/jobs/2'']"

definition example_http :: http_world where
  "example_http tr ps =
     (if p_q ps = ''Backend Developer site:stripe.com''
      then Response 200 (Some [''items'' \<mapsto> [job1, job2, job1]])
      else if p_q ps = ''Backend Developer startup hiring'' then Timeout
      else Response 200 (Some Map.empty))"

text \<open>The trace of the role \<open>Backend Developer\<close> in this run.\<close>

definition example_trace :: trace where
  "example_trace =
     [HttpGet (Params (Some ''key'') (Some ''cx'') ''Backend Developer site:stripe.com'' 8)
        (Response 200 (Some [''items'' \<mapsto> [job1, job2, job1]])),
      Sleep 400,
      HttpGet (Params (Some ''key'') (Some ''cx'') ''Backend Developer startup hiring'' 8) Timeout,
      Print (SearchError ''Backend Developer startup hiring'' RequestsTimeout),
      HttpGet (Params (Some ''key'') (Some ''cx'') (''Backend Developer '' @ [dq] @ ''we are hiring'' @ [dq]) 8)
        (Response 200 (Some Map.empty)),
      Sleep 400,
      HttpGet (Params (Some ''key'') (Some ''cx'') (''Backend Developer '' @ [dq] @ ''hiring now'' @ [dq]) 8)
        (Response 200 (Some Map.empty)),
      Sleep 400]"

text \<open>A network that answers every request with nine results with distinct links,
  and a mail server that refuses the login.\<close>

definition link_only :: "string \<Rightarrow> pydict" where
  "link_only l = [''link'' \<mapsto> PStr l]"

definition nine_items :: "pydict list" where
  "nine_items = map link_only [''a'', ''b'', ''c'', ''d'', ''e'', ''f'', ''g'', ''h'', ''i'']"

definition crowded_http :: http_world where
  "crowded_http tr ps = Response 200 (Some [''items'' \<mapsto> nine_items])"

definition login_refused :: smtp_world where
  "login_refused tr c = (case c of Login u p \<Rightarrow> False | _ \<Rightarrow> True)"

text \<open>A mail package that refuses to write a message whose subject holds a line feed, and
  otherwise gives the HTML part as the text of the message.\<close>

definition example_mail :: mail_lib where
  "example_mail =
     \<lparr>MIMEText = (\<lambda>body. None),
      as_string = (\<lambda>msg. if CHR 0x0A \<in> set (msg_Subject msg) then Inl HeaderWriteError
                         else Inr (msg_html msg))\<rparr>"

text \<open>A network that answers every request with the status 503, and one that answers
  every request with the status 301 and a body with one result.\<close>

definition down_http :: http_world where
  "down_http tr ps = Response 503 (Some Map.empty)"

definition moved_http :: http_world where
  "moved_http tr ps = Response 301 (Some [''items'' \<mapsto> [job2]])"

section \<open>Properties of the query builder\<close>

lemma startup_queries_map:
  "startup_queries role ds queries =
     queries @ map (\<lambda>d. if CHR ''.'' \<in> set d then role @ '' site:'' @ d
                          else role @ '' '' @ [dq] @ d @ [dq]) ds"
  by (induction ds arbitrary: queries) simp_all

text \<open>
  Claim C3. For every role and every list of target organisations the query builder
  returns, in this order: one query per organisation (the \<open>site:\<close> form when the
  organisation contains a dot, the quoted form otherwise), then the three generic queries
  \<open>startup hiring\<close>, \<open>"we are hiring"\<close> and \<open>"hiring now"\<close>.
\<close>

theorem build_queries_exact:
  "build_queries role orgs =
     map (\<lambda>d. if CHR ''.'' \<in> set d then role @ '' site:'' @ d
               else role @ '' '' @ [dq] @ d @ [dq]) orgs
     @ [role @ '' startup hiring'',
        role @ '' '' @ [dq] @ ''we are hiring'' @ [dq],
        role @ '' '' @ [dq] @ ''hiring now'' @ [dq]]"
  by (simp add: build_queries_def startup_queries_map)

section \<open>Properties of the search client\<close>

lemma extract_loop_map: "extract_loop its items = items @ map extract_item its"
  by (induction its arbitrary: items) simp_all

text \<open>
  Claim C10. A response object without an \<open>items\<close> field yields the empty list, and
  the loop over its items leaves \<open>seen\<close> and \<open>collected\<close> as they are; a response
  with the field yields one extracted item per raw item; and the snippet of an extracted
  item is the empty string whenever the raw item has no \<open>snippet\<close>.
\<close>

theorem extract_items_defaults:
  "(search_json ''items'' = None \<longrightarrow>
      extract_items search_json = []
      \<and> (\<forall>seen collected. item_loop (extract_items search_json) seen collected
             = Inr (seen, collected)))
   \<and> (\<forall>its. search_json ''items'' = Some its \<longrightarrow> extract_items search_json = map extract_item its)
   \<and> (\<forall>raw. raw ''snippet'' = None \<longrightarrow> extract_item raw ''snippet'' = Some (PStr []))"
  by (simp add: extract_items_def extract_loop_map extract_item_def py_get_def)

theorem extract_items_defaults_witness:
  "extract_items Map.empty = []
   \<and> item_loop (extract_items Map.empty) Map.empty [] = Inr (Map.empty, [])
   \<and> extract_items [''items'' \<mapsto> [[''title'' \<mapsto> PStr ''t'']]] = [extract_item [''title'' \<mapsto> PStr ''t'']]
   \<and> extract_item [''title'' \<mapsto> PStr ''t''] ''snippet'' = Some (PStr [])"
  using extract_items_defaults [of Map.empty]
    extract_items_defaults [of "[''items'' \<mapsto> [[''title'' \<mapsto> PStr ''t'']]]"]
  by simp

text \<open>The outcomes of a request on which \<open>google_search\<close> raises: a timeout, a
  transport error, a status from 400 to 599, and a body that is not JSON.\<close>

lemma read_response_fails:
  "(\<exists>e. read_response resp = Inl e) \<longleftrightarrow>
     resp = Timeout \<or> resp = ConnectionError
     \<or> (\<exists>status body. resp = Response status body
           \<and> (400 \<le> status \<and> status < 600 \<or> body = None))"
  by (cases resp) (auto split: option.splits)

text \<open>Every exception \<open>google_search\<close> raises is one that \<open>except Exception\<close>
  catches.\<close>

lemma google_search_is_Exception:
  "fst (google_search cfg http q n tr) = Inl e \<Longrightarrow> is_Exception e"
  by (auto simp add: google_search_def Let_def split: option.splits if_splits http_outcome.splits
      elim!: read_response.elims)

text \<open>
  Claim C6, as amended. When the request of a query times out, fails in transport, is
  answered with a status from 400 to 599, or is answered with a body that is not JSON, the
  loop over the queries catches the exception, prints it with the query, and goes on with
  the next query from the same \<open>seen\<close> and \<open>collected\<close>, without a pause: the query is
  skipped and nothing is raised. The same holds when \<open>google_search\<close> raises before any
  request because the key or the engine is not configured. A response with any other
  status and a JSON body is not a failure: its items go through the loop over the items.
\<close>

theorem failed_query_skipped:
  assumes "ps = Params (API_KEY cfg) (CX cfg) q (min MAX_PER_ROLE 10)"
    and "http tr ps = resp"
  shows "(\<not> (truthy (API_KEY cfg) \<and> truthy (CX cfg)) \<longrightarrow>
            query_loop cfg http (q # queries) seen collected tr =
              query_loop cfg http queries seen collected
                (tr @ [Print (SearchError q (RuntimeError
                   ''GCSE_API_KEY and GCSE_CX environment variables are required.''))]))
       \<and> (truthy (API_KEY cfg) \<and> truthy (CX cfg) \<longrightarrow>
            (resp = Timeout \<longrightarrow>
               query_loop cfg http (q # queries) seen collected tr =
                 query_loop cfg http queries seen collected
                   (tr @ [HttpGet ps resp, Print (SearchError q RequestsTimeout)]))
          \<and> (resp = ConnectionError \<longrightarrow>
               query_loop cfg http (q # queries) seen collected tr =
                 query_loop cfg http queries seen collected
                   (tr @ [HttpGet ps resp, Print (SearchError q RequestsConnectionError)]))
          \<and> (\<forall>status body. resp = Response status body \<and> 400 \<le> status \<and> status < 600 \<longrightarrow>
               query_loop cfg http (q # queries) seen collected tr =
                 query_loop cfg http queries seen collected
                   (tr @ [HttpGet ps resp, Print (SearchError q (HTTPError status))]))
          \<and> (\<forall>status. resp = Response status None \<and> \<not> (400 \<le> status \<and> status < 600) \<longrightarrow>
               query_loop cfg http (q # queries) seen collected tr =
                 query_loop cfg http queries seen collected
                   (tr @ [HttpGet ps resp, Print (SearchError q JSONDecodeError)]))
          \<and> (\<forall>status js. resp = Response status (Some js)
                 \<and> \<not> (400 \<le> status \<and> status < 600) \<longrightarrow>
               query_loop cfg http (q # queries) seen collected tr =
                 (case item_loop (extract_items js) seen collected of
                    Inl e \<Rightarrow> (Inl e, tr @ [HttpGet ps resp])
                  | Inr (seen', collected') \<Rightarrow>
                      if length collected' \<ge> MAX_PER_ROLE
                      then (Inr collected', tr @ [HttpGet ps resp])
                      else query_loop cfg http queries seen' collected'
                             (tr @ [HttpGet ps resp, Sleep 400]))))"
  using assms by (auto simp add: google_search_def Let_def split: sum.splits)

theorem failed_query_skipped_witness:
  "truthy (API_KEY example_cfg) \<and> truthy (CX example_cfg)
   \<and> example_http [] (Params (API_KEY example_cfg) (CX example_cfg)
                        ''Backend Developer startup hiring'' (min MAX_PER_ROLE 10)) = Timeout
   \<and> query_loop example_cfg example_http [''Backend Developer startup hiring''] Map.empty [] [] =
       (Inr [],
        [HttpGet (Params (Some ''key'') (Some ''cx'') ''Backend Developer startup hiring'' 8) Timeout,
         Print (SearchError ''Backend Developer startup hiring'' RequestsTimeout)])
   \<and> down_http [] (Params (API_KEY example_cfg) (CX example_cfg) ''q'' (min MAX_PER_ROLE 10)) =
       Response 503 (Some Map.empty)
   \<and> query_loop example_cfg down_http [''q''] Map.empty [] [] =
       (Inr [],
        [HttpGet (Params (Some ''key'') (Some ''cx'') ''q'' 8) (Response 503 (Some Map.empty)),
         Print (SearchError ''q'' (HTTPError 503))])
   \<and> \<not> truthy (API_KEY (example_cfg\<lparr>API_KEY := None\<rparr>))
   \<and> query_loop (example_cfg\<lparr>API_KEY := None\<rparr>) down_http [''q''] Map.empty [] [] =
       (Inr [],
        [Print (SearchError ''q'' (RuntimeError
           ''GCSE_API_KEY and GCSE_CX environment variables are required.''))])"
proof -
  have v: "truthy (API_KEY example_cfg) \<and> truthy (CX example_cfg)"
    by (simp add: example_cfg_def)
  have n: "\<not> (truthy (API_KEY (example_cfg\<lparr>API_KEY := None\<rparr>))
              \<and> truthy (CX (example_cfg\<lparr>API_KEY := None\<rparr>)))"
    by simp
  have t: "example_http [] (Params (API_KEY example_cfg) (CX example_cfg)
                        ''Backend Developer startup hiring'' (min MAX_PER_ROLE 10)) = Timeout"
    by (simp add: example_http_def)
  have d: "down_http [] (Params (API_KEY example_cfg) (CX example_cfg) ''q'' (min MAX_PER_ROLE 10)) =
       Response 503 (Some Map.empty)"
    by (simp add: down_http_def)
  note a = failed_query_skipped [where cfg = example_cfg and http = example_http and tr = "[]"
        and q = "''Backend Developer startup hiring''" and queries = "[]" and seen = Map.empty
        and collected = "[]", OF refl t, THEN conjunct2, THEN mp, OF v]
  note b = failed_query_skipped [where cfg = example_cfg and http = down_http and tr = "[]"
        and q = "''q''" and queries = "[]" and seen = Map.empty and collected = "[]",
        OF refl d, THEN conjunct2, THEN mp, OF v]
  note c = failed_query_skipped [where cfg = "example_cfg\<lparr>API_KEY := None\<rparr>" and http = down_http
        and tr = "[]" and q = "''q''" and queries = "[]" and seen = Map.empty
        and collected = "[]", OF refl refl, THEN conjunct1, THEN mp, OF n]
  from a b c v t d show ?thesis by (simp add: example_cfg_def MAX_PER_ROLE_def)
qed

text \<open>Claim C6 as stated fails on a status that is neither a success nor an error for
  \<open>raise_for_status\<close>: a response with the status 301 and a JSON body is not skipped.
  Its item is collected, nothing is printed, and the pause follows.\<close>

theorem status_301_counterexample:
  "query_loop example_cfg moved_http [''q''] Map.empty [] [] =
     (Inr [extract_item job2],
      [HttpGet (Params (Some ''key'') (Some ''cx'') ''q'' 8)
         (Response 301 (Some [''items'' \<mapsto> [job2]])),
       Sleep 400])"
  by (simp add: google_search_def example_cfg_def moved_http_def extract_items_def
      dedup_key_def extract_item_def py_get_def job2_def MAX_PER_ROLE_def)

section \<open>Properties of the aggregator\<close>

text \<open>The key of an item with a non-empty link is the link; without one, and with a
  title and a snippet that are strings, it is their concatenation.\<close>

lemma dedup_key_link:
  "it ''link'' = Some (PStr l) \<Longrightarrow> l \<noteq> [] \<Longrightarrow> dedup_key it = Inr (PStr l)"
  by (simp add: dedup_key_def py_get_def)

lemma dedup_key_fallback:
  "it ''link'' = Some PNone \<or> it ''link'' = Some (PStr []) \<or> it ''link'' = None \<Longrightarrow>
   it ''title'' = Some (PStr t) \<Longrightarrow> it ''snippet'' = Some (PStr s) \<Longrightarrow>
   dedup_key it = Inr (PStr (t @ s))"
  by (auto simp add: dedup_key_def py_get_def)


text \<open>The loops never append to a list that has reached the cap.\<close>

lemma item_loop_length:
  "item_loop items seen collected = Inr (seen', collected') \<Longrightarrow>
   length collected < MAX_PER_ROLE \<Longrightarrow> length collected' \<le> MAX_PER_ROLE"
proof (induction items arbitrary: seen collected)
  case Nil
  then show ?case by simp
next
  case (Cons it items)
  show ?case
  proof (cases "dedup_key it")
    case (Inl e)
    with Cons.prems show ?thesis by simp
  next
    case (Inr key)
    show ?thesis
    proof (cases "key \<in> dom seen")
      case True
      with Cons Inr show ?thesis by simp
    next
      case False
      show ?thesis
      proof (cases "MAX_PER_ROLE \<le> Suc (length collected)")
        case True
        with Cons.prems Inr False show ?thesis by auto
      next
        case open_: False
        with Cons.prems Inr False
        have "item_loop items (seen(key \<mapsto> True)) (collected @ [it]) = Inr (seen', collected')"
          by (simp add: Let_def)
        moreover from open_ have "length (collected @ [it]) < MAX_PER_ROLE" by simp
        ultimately show ?thesis by (rule Cons.IH)
      qed
    qed
  qed
qed

lemma query_loop_length:
  "fst (query_loop cfg http queries seen collected tr) = Inr collected' \<Longrightarrow>
   length collected < MAX_PER_ROLE \<Longrightarrow> length collected' \<le> MAX_PER_ROLE"
proof (induction queries arbitrary: seen collected tr)
  case Nil
  then show ?case by simp
next
  case (Cons q queries)
  obtain r tr1 where gs: "google_search cfg http q MAX_PER_ROLE tr = (r, tr1)"
    by (cases "google_search cfg http q MAX_PER_ROLE tr")
  show ?case
  proof (cases r)
    case (Inl e)
    with Cons.prems gs show ?thesis
      by (auto split: if_splits dest: Cons.IH)
  next
    case (Inr js)
    show ?thesis
    proof (cases "item_loop (extract_items js) seen collected")
      case il: (Inl e)
      with Cons.prems gs Inr show ?thesis by simp
    next
      case ir: (Inr sc)
      obtain seen1 collected1 where sc: "sc = (seen1, collected1)" by (cases sc)
      from ir sc Cons.prems(2) have le: "length collected1 \<le> MAX_PER_ROLE"
        by (auto dest: item_loop_length)
      show ?thesis
      proof (cases "MAX_PER_ROLE \<le> length collected1")
        case True
        with Cons.prems gs Inr ir sc le show ?thesis by simp
      next
        case False
        with Cons.prems gs Inr ir sc
        have "fst (query_loop cfg http queries seen1 collected1 (tr1 @ [Sleep 400])) = Inr collected'"
          by simp
        moreover from False have "length collected1 < MAX_PER_ROLE" by simp
        ultimately show ?thesis by (rule Cons.IH)
      qed
    qed
  qed
qed


text \<open>First occurrences, one item at a time.\<close>

lemma first_occurrences_Nil: "first_occurrences f [] = []"
  by (simp add: first_occurrences_def)

lemma first_occurrences_snoc:
  "first_occurrences f (xs @ [x]) =
     first_occurrences f xs @ (if f x \<in> f ` set xs then [] else [x])"
proof -
  have a: "filter (\<lambda>i. f ((xs @ [x]) ! i) \<notin> f ` set (take i (xs @ [x]))) [0..<length xs]
         = filter (\<lambda>i. f (xs ! i) \<notin> f ` set (take i xs)) [0..<length xs]"
    by (rule filter_cong) (auto simp add: nth_append)
  have b: "map (\<lambda>i. (xs @ [x]) ! i) (filter (\<lambda>i. f (xs ! i) \<notin> f ` set (take i xs)) [0..<length xs])
         = map (\<lambda>i. xs ! i) (filter (\<lambda>i. f (xs ! i) \<notin> f ` set (take i xs)) [0..<length xs])"
    by (rule map_cong) (auto simp add: nth_append)
  show ?thesis
    using a b by (simp add: first_occurrences_def)
qed

lemma first_occurrences_append:
  "\<exists>zs. first_occurrences f (xs @ ys) = first_occurrences f xs @ zs"
proof (induction ys rule: rev_induct)
  case Nil
  then show ?case by simp
next
  case (snoc y ys)
  then obtain zs where "first_occurrences f (xs @ ys) = first_occurrences f xs @ zs" by blast
  then show ?case
    using first_occurrences_snoc [of f "xs @ ys" y] by simp
qed

lemma take_first_occurrences_full:
  "length (first_occurrences f xs) = n \<Longrightarrow>
   take n (first_occurrences f (xs @ ys)) = first_occurrences f xs"
  using first_occurrences_append [of f xs ys] by auto

lemma returned_items_append:
  "returned_items (evs @ evs') = returned_items evs @ returned_items evs'"
  by (induction evs rule: returned_items.induct) simp_all

lemma google_search_trace:
  "google_search cfg http q n tr = (r, tr1) \<Longrightarrow>
   \<exists>evs. tr1 = tr @ evs
     \<and> returned_items evs = (case r of Inl e \<Rightarrow> [] | Inr js \<Rightarrow> extract_items js)"
  by (auto simp add: google_search_def Let_def split: option.splits if_splits)



lemma item_loop_first_occurrences:
  assumes "item_loop items seen collected = Inr (seen', collected')"
    and "collected = first_occurrences dedup_key P"
    and "\<forall>k. k \<in> dom seen \<longleftrightarrow> Inr k \<in> dedup_key ` set P"
    and "length collected < MAX_PER_ROLE"
  shows "collected' = take MAX_PER_ROLE (first_occurrences dedup_key (P @ items))
     \<and> (length collected' < MAX_PER_ROLE \<longrightarrow>
          collected' = first_occurrences dedup_key (P @ items)
          \<and> (\<forall>k. k \<in> dom seen' \<longleftrightarrow> Inr k \<in> dedup_key ` set (P @ items)))"
  using assms
proof (induction items arbitrary: seen collected P)
  case Nil
  then show ?case by simp
next
  case (Cons it items)
  from Cons.prems(1) obtain key where key: "dedup_key it = Inr key"
    by (cases "dedup_key it") simp_all
  show ?case
  proof (cases "key \<in> dom seen")
    case True
    with Cons.prems(3) key have old: "dedup_key it \<in> dedup_key ` set P" by simp
    have 1: "item_loop items seen collected = Inr (seen', collected')"
      using Cons.prems(1) key True by simp
    have 2: "collected = first_occurrences dedup_key (P @ [it])"
      using Cons.prems(2) old by (simp add: first_occurrences_snoc)
    have 3: "\<forall>k. k \<in> dom seen \<longleftrightarrow> Inr k \<in> dedup_key ` set (P @ [it])"
      using Cons.prems(3) key True by auto
    show ?thesis
      using Cons.IH [OF 1 2 3 Cons.prems(4)] unfolding append_assoc append_Cons append_Nil .
  next
    case False
    with Cons.prems(3) key have new: "dedup_key it \<notin> dedup_key ` set P" by simp
    have 2: "collected @ [it] = first_occurrences dedup_key (P @ [it])"
      using Cons.prems(2) new by (simp add: first_occurrences_snoc)
    have 3: "\<forall>k. k \<in> dom (seen(key \<mapsto> True)) \<longleftrightarrow> Inr k \<in> dedup_key ` set (P @ [it])"
      using Cons.prems(3) key by auto
    show ?thesis
    proof (cases "MAX_PER_ROLE \<le> Suc (length collected)")
      case True
      with Cons.prems(1) key False have c: "collected' = collected @ [it]"
        by (simp add: Let_def)
      from True Cons.prems(4) have len: "length (first_occurrences dedup_key (P @ [it])) = MAX_PER_ROLE"
        using 2 [symmetric] by simp
      show ?thesis
        using c 2 len take_first_occurrences_full [OF len, of items] by simp
    next
      case open_: False
      have 1: "item_loop items (seen(key \<mapsto> True)) (collected @ [it]) = Inr (seen', collected')"
        using Cons.prems(1) key False open_ by (simp add: Let_def)
      have 4: "length (collected @ [it]) < MAX_PER_ROLE" using open_ by simp
      show ?thesis
        using Cons.IH [OF 1 2 3 4] unfolding append_assoc append_Cons append_Nil .
    qed
  qed
qed



lemma query_loop_first_occurrences:
  assumes "query_loop cfg http queries seen collected tr = (Inr collected', tr')"
    and "collected = first_occurrences dedup_key P"
    and "\<forall>k. k \<in> dom seen \<longleftrightarrow> Inr k \<in> dedup_key ` set P"
    and "length collected < MAX_PER_ROLE"
  shows "\<exists>evs. tr' = tr @ evs
     \<and> collected' = take MAX_PER_ROLE (first_occurrences dedup_key (P @ returned_items evs))"
  using assms
proof (induction queries arbitrary: seen collected tr P)
  case Nil
  then show ?case by simp
next
  case (Cons q queries)
  obtain r tr1 where gs: "google_search cfg http q MAX_PER_ROLE tr = (r, tr1)"
    by (cases "google_search cfg http q MAX_PER_ROLE tr")
  from google_search_trace [OF gs] obtain ev1 where
    tr1: "tr1 = tr @ ev1" and
    ev1: "returned_items ev1 = (case r of Inl e \<Rightarrow> [] | Inr js \<Rightarrow> extract_items js)"
    by blast
  show ?case
  proof (cases r)
    case (Inl e)
    with Cons.prems(1) gs
    have 1: "query_loop cfg http queries seen collected (tr1 @ [Print (SearchError q e)])
               = (Inr collected', tr')"
      by (simp split: if_splits)
    from Cons.IH [OF 1 Cons.prems(2) Cons.prems(3) Cons.prems(4)] obtain evs where
      "tr' = (tr1 @ [Print (SearchError q e)]) @ evs"
      "collected' = take MAX_PER_ROLE (first_occurrences dedup_key (P @ returned_items evs))"
      by blast
    with tr1 ev1 Inl
    have "tr' = tr @ (ev1 @ Print (SearchError q e) # evs)
      \<and> collected' = take MAX_PER_ROLE (first_occurrences dedup_key
            (P @ returned_items (ev1 @ Print (SearchError q e) # evs)))"
      by (simp add: returned_items_append)
    then show ?thesis by blast
  next
    case (Inr js)
    from Cons.prems(1) gs Inr obtain seen1 collected1 where
      il: "item_loop (extract_items js) seen collected = Inr (seen1, collected1)"
      by (cases "item_loop (extract_items js) seen collected") auto
    note inv = item_loop_first_occurrences [OF il Cons.prems(2) Cons.prems(3) Cons.prems(4)]
    show ?thesis
    proof (cases "MAX_PER_ROLE \<le> length collected1")
      case True
      with Cons.prems(1) gs Inr il have "collected' = collected1" "tr' = tr1" by simp_all
      with inv [THEN conjunct1] tr1 ev1 Inr
      have "tr' = tr @ ev1
        \<and> collected' = take MAX_PER_ROLE (first_occurrences dedup_key (P @ returned_items ev1))"
        by simp
      then show ?thesis by blast
    next
      case False
      with Cons.prems(1) gs Inr il
      have 1: "query_loop cfg http queries seen1 collected1 (tr1 @ [Sleep 400])
                 = (Inr collected', tr')"
        by simp
      from False have 4: "length collected1 < MAX_PER_ROLE" by simp
      with inv [THEN conjunct2]
      have 2: "collected1 = first_occurrences dedup_key (P @ extract_items js)"
        and 3: "\<forall>k. k \<in> dom seen1 \<longleftrightarrow> Inr k \<in> dedup_key ` set (P @ extract_items js)"
        by blast+
      from Cons.IH [OF 1 2 3 4] obtain evs where
        "tr' = (tr1 @ [Sleep 400]) @ evs"
        "collected' = take MAX_PER_ROLE (first_occurrences dedup_key
             ((P @ extract_items js) @ returned_items evs))"
        by blast
      with tr1 ev1 Inr
      have "tr' = tr @ (ev1 @ Sleep 400 # evs)
        \<and> collected' = take MAX_PER_ROLE (first_occurrences dedup_key
              (P @ returned_items (ev1 @ Sleep 400 # evs)))"
        by (simp add: returned_items_append)
      then show ?thesis by blast
    qed
  qed
qed

lemma search_role_first_occurrences:
  assumes "search_role cfg http role tr = (Inr collected, tr')"
  shows "collected = take MAX_PER_ROLE
           (first_occurrences dedup_key (returned_items (drop (length tr) tr')))"
proof -
  have "\<exists>evs. tr' = tr @ evs
     \<and> collected = take MAX_PER_ROLE (first_occurrences dedup_key ([] @ returned_items evs))"
    by (rule query_loop_first_occurrences [where seen = Map.empty and collected = "[]"])
       (use assms in \<open>simp_all add: search_role_def first_occurrences_Nil MAX_PER_ROLE_def\<close>)
  then show ?thesis by auto
qed

lemma first_occurrences_distinct: "distinct (map f (first_occurrences f xs))"
proof (induction xs rule: rev_induct)
  case Nil
  then show ?case by (simp add: first_occurrences_Nil)
next
  case (snoc x xs)
  have "set (first_occurrences f xs) \<subseteq> set xs"
    by (auto simp add: first_occurrences_def)
  with snoc show ?case
    by (auto simp add: first_occurrences_snoc)
qed

lemma find_snoc:
  "List.find P (xs @ [x]) = (case List.find P xs of None \<Rightarrow> (if P x then Some x else None) | Some y \<Rightarrow> Some y)"
  by (induction xs) simp_all

lemma first_occurrences_find:
  "c \<in> set (first_occurrences f xs) \<Longrightarrow> List.find (\<lambda>x. f x = f c) xs = Some c"
proof (induction xs rule: rev_induct)
  case Nil
  then show ?case by (simp add: first_occurrences_Nil)
next
  case (snoc x xs)
  show ?case
  proof (cases "c \<in> set (first_occurrences f xs)")
    case True
    then show ?thesis using snoc.IH by (simp add: find_snoc)
  next
    case False
    with snoc.prems have cx: "c = x" and new: "f x \<notin> f ` set xs"
      by (auto simp add: first_occurrences_snoc split: if_splits)
    from new have "List.find (\<lambda>y. f y = f x) xs = None"
      unfolding find_None_iff by (metis image_eqI)
    with cx show ?thesis by (simp add: find_snoc)
  qed
qed

lemma find_finer:
  assumes "List.find (\<lambda>x. f x = f c) xs = Some c" and "Q c" and "\<forall>x. Q x \<longrightarrow> f x = f c"
  shows "List.find Q xs = Some c"
  using assms(1)
proof (induction xs)
  case Nil
  then show ?case by simp
next
  case (Cons y ys)
  show ?case
  proof (cases "f y = f c")
    case True
    with Cons.prems have "y = c" by simp
    with assms(2) show ?thesis by simp
  next
    case False
    with assms(3) have "\<not> Q y" by blast
    moreover from False Cons.prems have "List.find (\<lambda>x. f x = f c) ys = Some c" by simp
    then have "List.find Q ys = Some c" by (rule Cons.IH)
    ultimately show ?thesis by simp
  qed
qed

lemma filter_single:
  assumes "distinct (map f xs)" and "c \<in> set xs" and "Q c" and "\<forall>x. Q x \<longrightarrow> f x = f c"
  shows "filter Q xs = [c]"
  using assms
proof (induction xs)
  case Nil
  then show ?case by simp
next
  case (Cons x xs)
  show ?case
  proof (cases "x = c")
    case True
    have "\<not> Q y" if "y \<in> set xs" for y
    proof
      assume "Q y"
      with Cons.prems(4) True have "f y = f x" by simp
      with that Cons.prems(1) show False by (auto simp add: image_iff)
    qed
    then have "filter Q xs = []" by (simp add: filter_empty_conv)
    with True Cons.prems(3) show ?thesis by simp
  next
    case False
    with Cons.prems have cin: "c \<in> set xs" by simp
    from Cons.prems(1) have d: "distinct (map f xs)" by simp
    have "filter Q xs = [c]" by (rule Cons.IH [OF d cin Cons.prems(3,4)])
    moreover have "\<not> Q x"
    proof
      assume "Q x"
      with Cons.prems(4) have "f x = f c" by simp
      with \<open>c \<in> set xs\<close> Cons.prems(1) show False by (auto simp add: image_iff)
    qed
    ultimately show ?thesis by simp
  qed
qed

lemma query_loop_cap_trace:
  "query_loop cfg http queries seen collected tr = (Inr collected', tr') \<Longrightarrow>
   length collected < MAX_PER_ROLE \<Longrightarrow> length collected' = MAX_PER_ROLE \<Longrightarrow>
   \<exists>ps resp. tr' \<noteq> [] \<and> last tr' = HttpGet ps resp"
proof (induction queries arbitrary: seen collected tr)
  case Nil
  then show ?case by simp
next
  case (Cons q queries)
  obtain r tr1 where gs: "google_search cfg http q MAX_PER_ROLE tr = (r, tr1)"
    by (cases "google_search cfg http q MAX_PER_ROLE tr")
  show ?case
  proof (cases r)
    case (Inl e)
    with Cons.prems(1) gs
    have "query_loop cfg http queries seen collected (tr1 @ [Print (SearchError q e)])
            = (Inr collected', tr')"
      by (simp split: if_splits)
    then show ?thesis using Cons.prems(2,3) by (rule Cons.IH)
  next
    case (Inr js)
    from Cons.prems(1) gs Inr obtain seen1 collected1 where
      il: "item_loop (extract_items js) seen collected = Inr (seen1, collected1)"
      by (cases "item_loop (extract_items js) seen collected") auto
    show ?thesis
    proof (cases "MAX_PER_ROLE \<le> length collected1")
      case True
      with Cons.prems(1) gs Inr il have "tr' = tr1" by simp
      moreover from gs Inr have "\<exists>ps resp. tr1 = tr @ [HttpGet ps resp]"
        by (auto simp add: google_search_def Let_def split: option.splits if_splits)
      ultimately show ?thesis by auto
    next
      case False
      with Cons.prems(1) gs Inr il
      have "query_loop cfg http queries seen1 collected1 (tr1 @ [Sleep 400])
              = (Inr collected', tr')"
        by simp
      moreover from False have "length collected1 < MAX_PER_ROLE" by simp
      ultimately show ?thesis using Cons.prems(3) by (rule Cons.IH)
    qed
  qed
qed

text \<open>The outcome of the two concrete runs for the role \<open>Backend Developer\<close>.\<close>

lemma example_keys:
  "dedup_key (extract_item job1) = Inr (PStr ''https://stripe.com/jobs/1?a=1&b=2'')"
  "dedup_key (extract_item job2) = Inr (PStr ''https://stripe.com/jobs/2'')"
  by (simp_all add: dedup_key_def extract_item_def py_get_def job1_def job2_def)

lemma example_search_role:
  "search_role example_cfg example_http ''Backend Developer'' [] =
     (Inr [extract_item job1, extract_item job2], example_trace)"
  by (simp add: search_role_def build_queries_def example_cfg_def example_http_def
      google_search_def extract_items_def example_keys MAX_PER_ROLE_def example_trace_def)

lemma link_only_key: "l \<noteq> [] \<Longrightarrow> dedup_key (extract_item (link_only l)) = Inr (PStr l)"
  by (simp add: dedup_key_def extract_item_def py_get_def link_only_def)

lemma crowded_search_role:
  "search_role example_cfg crowded_http ''Backend Developer'' [] =
     (Inr (map (\<lambda>l. extract_item (link_only l)) [''a'', ''b'', ''c'', ''d'', ''e'', ''f'', ''g'', ''h'']),
      [HttpGet (Params (Some ''key'') (Some ''cx'') ''Backend Developer site:stripe.com'' 8)
         (Response 200 (Some [''items'' \<mapsto> nine_items]))])"
  by (simp add: search_role_def build_queries_def example_cfg_def crowded_http_def
      google_search_def extract_items_def link_only_key MAX_PER_ROLE_def nine_items_def)

text \<open>
  Claim C2. Whatever the network answers, for any number of queries and of items, the
  list a role ends with has at most \<open>MAX_PER_ROLE\<close> = 8 entries; and when it has
  reached 8 entries, the last thing the role did is the request whose items filled it: no
  further query was sent.
\<close>

theorem role_results_capped:
  "search_role cfg http role tr = (Inr collected, tr') \<Longrightarrow>
   length collected \<le> MAX_PER_ROLE \<and> MAX_PER_ROLE = 8
   \<and> (length collected = MAX_PER_ROLE \<longrightarrow> (\<exists>ps resp. last tr' = HttpGet ps resp))"
proof -
  assume a: "search_role cfg http role tr = (Inr collected, tr')"
  then have q: "query_loop cfg http (build_queries role (TOP_STARTUPS cfg)) Map.empty [] tr
                  = (Inr collected, tr')"
    by (simp add: search_role_def)
  have z: "length ([] :: pydict list) < MAX_PER_ROLE" by (simp add: MAX_PER_ROLE_def)
  from q have "fst (query_loop cfg http (build_queries role (TOP_STARTUPS cfg)) Map.empty [] tr)
                 = Inr collected" by simp
  then have 1: "length collected \<le> MAX_PER_ROLE" using z by (rule query_loop_length)
  have 2: "\<exists>ps resp. last tr' = HttpGet ps resp" if "length collected = MAX_PER_ROLE"
    using query_loop_cap_trace [OF q z that] by blast
  from 1 2 show ?thesis by (simp add: MAX_PER_ROLE_def)
qed

theorem role_results_capped_witness:
  "search_role example_cfg crowded_http ''Backend Developer'' [] =
     (Inr (map (\<lambda>l. extract_item (link_only l)) [''a'', ''b'', ''c'', ''d'', ''e'', ''f'', ''g'', ''h'']),
      [HttpGet (Params (Some ''key'') (Some ''cx'') ''Backend Developer site:stripe.com'' 8)
         (Response 200 (Some [''items'' \<mapsto> nine_items]))])
   \<and> length (map (\<lambda>l. extract_item (link_only l)) [''a'', ''b'', ''c'', ''d'', ''e'', ''f'', ''g'', ''h''])
       \<le> MAX_PER_ROLE
   \<and> MAX_PER_ROLE = 8"
  using role_results_capped [OF crowded_search_role] crowded_search_role by simp

text \<open>
  Claim C1. The list a role ends with is made of the first occurrences, by dedup key, of
  the items the search client returned for the role, in the order in which they were
  returned, cut at the cap. In particular, for every non-empty link, an item of the list
  with this link is the first returned item with this link, and it is the only item of the
  list with this link.
\<close>

theorem role_results_first_seen:
  assumes "search_role cfg http role tr = (Inr collected, tr')"
  shows "collected = take MAX_PER_ROLE
           (first_occurrences dedup_key (returned_items (drop (length tr) tr')))
       \<and> (\<forall>c\<in>set collected. \<forall>l. l \<noteq> [] \<and> c ''link'' = Some (PStr l) \<longrightarrow>
             List.find (\<lambda>x. x ''link'' = Some (PStr l)) (returned_items (drop (length tr) tr')) = Some c
           \<and> filter (\<lambda>x. x ''link'' = Some (PStr l)) collected = [c])"
proof -
  let ?S = "returned_items (drop (length tr) tr')"
  have eq: "collected = take MAX_PER_ROLE (first_occurrences dedup_key ?S)"
    using assms by (rule search_role_first_occurrences)
  have dist: "distinct (map dedup_key collected)"
    unfolding eq take_map [symmetric] by (rule distinct_take) (rule first_occurrences_distinct)
  have "List.find (\<lambda>x. x ''link'' = Some (PStr l)) ?S = Some c
        \<and> filter (\<lambda>x. x ''link'' = Some (PStr l)) collected = [c]"
    if c: "c \<in> set collected" and l: "l \<noteq> []" "c ''link'' = Some (PStr l)" for c l
  proof -
    have key: "\<forall>x. x ''link'' = Some (PStr l) \<longrightarrow> dedup_key x = dedup_key c"
      using l by (simp add: dedup_key_def py_get_def)
    from c have "c \<in> set (first_occurrences dedup_key ?S)"
      unfolding eq by (rule in_set_takeD)
    then have "List.find (\<lambda>x. dedup_key x = dedup_key c) ?S = Some c"
      by (rule first_occurrences_find)
    then have "List.find (\<lambda>x. x ''link'' = Some (PStr l)) ?S = Some c"
      using l(2) key by (rule find_finer)
    moreover have "filter (\<lambda>x. x ''link'' = Some (PStr l)) collected = [c]"
      using dist c l(2) key by (rule filter_single)
    ultimately show ?thesis by simp
  qed
  with eq show ?thesis by blast
qed

theorem role_results_first_seen_witness:
  "search_role example_cfg example_http ''Backend Developer'' [] =
     (Inr [extract_item job1, extract_item job2], example_trace)
   \<and> [extract_item job1, extract_item job2] =
       take MAX_PER_ROLE (first_occurrences dedup_key (returned_items example_trace))
   \<and> List.find (\<lambda>x. x ''link'' = Some (PStr ''https://stripe.com/jobs/2''))
         (returned_items example_trace) = Some (extract_item job2)
   \<and> filter (\<lambda>x. x ''link'' = Some (PStr ''https://stripe.com/jobs/2''))
         [extract_item job1, extract_item job2] = [extract_item job2]"
proof -
  note t = role_results_first_seen [OF example_search_role]
  have d: "drop (length ([] :: trace)) example_trace = example_trace" by simp
  from t have 1: "[extract_item job1, extract_item job2] =
       take MAX_PER_ROLE (first_occurrences dedup_key (returned_items example_trace))"
    unfolding d by (rule conjunct1)
  have m: "extract_item job2 \<in> set [extract_item job1, extract_item job2]" by simp
  have l: "''https://stripe.com/jobs/2'' \<noteq> [] \<and>
           extract_item job2 ''link'' = Some (PStr ''https://stripe.com/jobs/2'')"
    by (simp add: extract_item_def py_get_def job2_def)
  from t [THEN conjunct2, THEN bspec, OF m, THEN spec, THEN mp, OF l]
  have 2: "List.find (\<lambda>x. x ''link'' = Some (PStr ''https://stripe.com/jobs/2''))
         (returned_items example_trace) = Some (extract_item job2)
   \<and> filter (\<lambda>x. x ''link'' = Some (PStr ''https://stripe.com/jobs/2''))
         [extract_item job1, extract_item job2] = [extract_item job2]"
    unfolding d .
  from example_search_role 1 2 show ?thesis by (intro conjI) (erule conjunct1 conjunct2 | assumption)+
qed

text \<open>
  Claim C4 says that the dedup key of an item without a usable link is the concatenation
  of its title and its snippet, also when the title is absent. On an item that
  \<open>extract_items\<close> built from a raw item with neither a link nor a title, the
  computation of the key raises \<open>TypeError\<close> instead: the extracted item has the key
  \<open>title\<close> with the value \<open>None\<close>, so the default of \<open>it.get("title","")\<close>
  is not used, and \<open>None\<close> cannot be added to a string. Nothing catches the exception:
  a run in which the network returns such an item ends with it.
\<close>

theorem dedup_key_absent_title:
  "dedup_key (extract_item [''snippet'' \<mapsto> PStr ''s'']) = Inl TypeError
   \<and> fst (main example_cfg lib ''now'' ''today''
             (\<lambda>tr ps. Response 200 (Some [''items'' \<mapsto> [[''snippet'' \<mapsto> PStr ''s'']]]))
             (\<lambda>tr c. True)) = Inl TypeError"
  by (simp add: dedup_key_def py_get_def extract_item_def main_def ROLES_def search_role_def
      build_queries_def example_cfg_def google_search_def extract_items_def MAX_PER_ROLE_def)

section \<open>Properties of the orchestrator\<close>

text \<open>
  Claim C5, as amended. When a required value is missing or empty, \<open>main\<close> ends with
  \<open>SystemExit\<close> and the one message below, and the trace is empty: no request was sent
  and no mail session was opened. The message is the same whichever value is missing.
\<close>

theorem main_missing_config:
  "\<not> (truthy (API_KEY cfg) \<and> truthy (CX cfg) \<and> truthy (RECIPIENT cfg)
      \<and> truthy (SENDER cfg) \<and> truthy (SMTP_PASS cfg)) \<Longrightarrow>
   main cfg lib now today http smtp =
     (Inl (SystemExit ''Missing required environment variables. See script header.''), [])"
  by (simp add: main_def)

theorem main_missing_config_witness:
  "\<not> truthy (API_KEY (example_cfg\<lparr>API_KEY := None\<rparr>))
   \<and> main (example_cfg\<lparr>API_KEY := None\<rparr>) example_mail ''now'' ''today''
         (\<lambda>tr ps. Timeout) (\<lambda>tr c. True) =
     (Inl (SystemExit ''Missing required environment variables. See script header.''), [])"
  using main_missing_config [of "example_cfg\<lparr>API_KEY := None\<rparr>" example_mail "''now''" "''today''"
      "\<lambda>tr ps. Timeout" "\<lambda>tr c. True"]
  by (simp add: example_cfg_def)

text \<open>Claim C5 as stated fails: the diagnostic is the same when only the search key
  is missing and when only the SMTP password is missing, so no reading of it tells the
  two kinds of configuration apart.\<close>

theorem main_diagnostic_counterexample:
  "\<not> (\<exists>category_of :: exn + unit \<Rightarrow> config_category.
        category_of (fst (main (example_cfg\<lparr>API_KEY := None\<rparr>) example_mail ''now'' ''today''
                            (\<lambda>tr ps. Timeout) (\<lambda>tr c. True))) = SearchAPI
      \<and> category_of (fst (main (example_cfg\<lparr>SMTP_PASS := None\<rparr>) example_mail ''now'' ''today''
                              (\<lambda>tr ps. Timeout) (\<lambda>tr c. True))) = EmailSMTP)"
  by (simp add: main_def example_cfg_def)

section \<open>Properties of the report renderer\<close>

text \<open>
  Claim C8. For a role with no results, the renderer appends to the report the heading
  with the escaped role and the count 0, the opening of the list, the single entry
  \<open>No results found.\<close> and the closing of the list, and nothing else, before it goes on
  with the next role. The report for a single role without results is written out.
\<close>

theorem empty_role_section:
  "render_roles ((role, []) # rest) body =
     render_roles rest
       (body @ ''<h3>'' @ html_escape role @ '' '' @ em_dash @ '' 0 results</h3>'' @ [CHR 0x0A]
        @ ''<ul>'' @ ''<li>No results found.</li>'' @ ''</ul>'')
   \<and> build_html_report now [(role, [])] =
       Inr (''<html><body>''
            @ ''<h2>Job search results '' @ em_dash @ '' '' @ now @ ''</h2>''
            @ ''<h3>'' @ html_escape role @ '' '' @ em_dash @ '' 0 results</h3>'' @ [CHR 0x0A]
            @ ''<ul>'' @ ''<li>No results found.</li>'' @ ''</ul>''
            @ ''<hr/><p>Generated automatically.</p>'' @ ''</body></html>'')"
  by (simp add: role_heading_def digit_char_def build_html_report_def)

text \<open>\<open>html.escape\<close>, character by character.\<close>

lemma replace_char_Nil: "replace_char c r [] = []"
  by (simp add: replace_char_def)

lemma replace_char_Cons:
  "replace_char c r (x # xs) = (if x = c then r else [x]) @ replace_char c r xs"
  by (simp add: replace_char_def)

lemma replace_char_append:
  "replace_char c r (xs @ ys) = replace_char c r xs @ replace_char c r ys"
  by (simp add: replace_char_def)

lemma html_escape_Nil: "html_escape [] = []"
  by (simp add: html_escape_def replace_char_Nil)

lemma html_escape_Cons: "html_escape (x # xs) = escape_char x @ html_escape xs"
  by (simp add: html_escape_def replace_char_Cons replace_char_append replace_char_Nil)

lemma html_escape_concat: "html_escape s = concat (map escape_char s)"
proof (induction s)
  case Nil
  show ?case by (simp add: html_escape_Nil)
next
  case (Cons x xs)
  then show ?case by (simp only: html_escape_Cons list.map concat.simps)
qed


lemma html_escape_no_angle:
  "CHR ''<'' \<notin> set (html_escape s) \<and> CHR ''>'' \<notin> set (html_escape s)"
  by (induction s) (simp_all add: html_escape_Nil html_escape_Cons)

text \<open>On an item whose link and snippet are strings, the entry has the link as it is
  between the quotes of \<open>href\<close>, the escaped title as anchor text (the escaped link when
  the title is \<open>None\<close> or empty) and the escaped snippet; escaping replaces every \<open>&\<close>,
  \<open><\<close>, \<open>>\<close> and both quotes by their entities, so no \<open><\<close> and no \<open>>\<close> is left.\<close>

lemma render_item_escaped:
  assumes "it ''title'' = Some t" and "it ''link'' = Some (PStr l)"
    and "it ''snippet'' = Some (PStr s)"
  shows "render_items (it # items) body =
           render_items items
             (body @ ''<li><a href='' @ [sq] @ l @ [sq] @ ''>''
                   @ html_escape (case t of PNone \<Rightarrow> l | PStr x \<Rightarrow> if x = [] then l else x)
                   @ ''</a><br/><small>'' @ html_escape s @ ''</small></li>'')
       \<and> (\<forall>u. html_escape u = concat (map escape_char u)
              \<and> CHR ''<'' \<notin> set (html_escape u) \<and> CHR ''>'' \<notin> set (html_escape u))"
proof -
  have "render_item it =
          Inr (''<li><a href='' @ [sq] @ l @ [sq] @ ''>''
               @ html_escape (case t of PNone \<Rightarrow> l | PStr x \<Rightarrow> if x = [] then l else x)
               @ ''</a><br/><small>'' @ html_escape s @ ''</small></li>'')"
    using assms by (cases t) (simp_all add: render_item_def py_index_def py_get_def)
  then show ?thesis using html_escape_concat html_escape_no_angle by simp
qed

text \<open>
  Claim C7 says that every item is rendered with escaped anchor text, escaped snippet and
  its link as \<open>href\<close>. On items that \<open>extract_items\<close> builds and the aggregator
  collects, the renderer does otherwise. An item with an empty title and no link has the
  link \<open>None\<close>, so line 72 calls \<open>html.escape(None)\<close>, which raises \<open>AttributeError\<close>;
  an item whose snippet is null makes line 74 raise the same; in both cases there is no
  report. An item with a title and no link is rendered with the text \<open>None\<close> as its
  \<open>href\<close>. Nothing catches the exception: a run in which the network returns the first
  item ends with it after the searches, and no mail session is opened.
\<close>

theorem render_item_missing_fields:
  "build_html_report now
     [(role, [extract_item [''title'' \<mapsto> PStr [], ''snippet'' \<mapsto> PStr ''s'']])] = Inl AttributeError
   \<and> build_html_report now
       [(role, [extract_item [''title'' \<mapsto> PStr ''T'', ''link'' \<mapsto> PStr ''u'',
                              ''snippet'' \<mapsto> PNone]])] = Inl AttributeError
   \<and> build_html_report now
       [(role, [extract_item [''title'' \<mapsto> PStr ''T'', ''snippet'' \<mapsto> PStr ''s'']])] =
       Inr (''<html><body>''
            @ ''<h2>Job search results '' @ em_dash @ '' '' @ now @ ''</h2>''
            @ ''<h3>'' @ html_escape role @ '' '' @ em_dash @ '' 1 results</h3>'' @ [CHR 0x0A]
            @ ''<ul>'' @ ''<li><a href='' @ [sq] @ ''None'' @ [sq] @ ''>T</a><br/><small>s</small></li>''
            @ ''</ul>'' @ ''<hr/><p>Generated automatically.</p>'' @ ''</body></html>'')
   \<and> dedup_key (extract_item [''title'' \<mapsto> PStr [], ''snippet'' \<mapsto> PStr ''s'']) = Inr (PStr ''s'')
   \<and> main (example_cfg\<lparr>TOP_STARTUPS := []\<rparr>) lib ''now'' ''today''
         (\<lambda>tr ps. Response 200 (Some [''items'' \<mapsto> [[''title'' \<mapsto> PStr [], ''snippet'' \<mapsto> PStr ''s'']]]))
         smtp =
       (Inl AttributeError,
        snd (role_loop (example_cfg\<lparr>TOP_STARTUPS := []\<rparr>)
               (\<lambda>tr ps. Response 200 (Some [''items'' \<mapsto> [[''title'' \<mapsto> PStr [], ''snippet'' \<mapsto> PStr ''s'']]]))
               ROLES [] []))"
  by (simp add: build_html_report_def role_heading_def digit_char_def render_item_def
      py_index_def py_get_def extract_item_def html_escape_Nil html_escape_Cons dedup_key_def
      main_def ROLES_def search_role_def build_queries_def example_cfg_def google_search_def
      extract_items_def MAX_PER_ROLE_def)

section \<open>Properties of the mailer\<close>

text \<open>Each property below is read off the finitely many courses a mail session can take:
  every call on the server succeeds or fails, and the two calls into the \<open>email\<close>
  package return or raise.\<close>

lemma send_email_trace_prefix:
  "send_email cfg lib smtp subject html_body tr = (r, tr') \<Longrightarrow> \<exists>evs. tr' = tr @ evs"
  by (auto simp add: send_email_def smtp_session_def smtp_call_def Let_def
      split: if_splits option.splits sum.splits)

lemma send_email_starttls:
  assumes "truthy (SMTP_PASS cfg)" "truthy (SENDER cfg)" "truthy (RECIPIENT cfg)"
    and "send_email cfg lib smtp subject html_body tr = (r, tr @ evs)"
  shows "(\<exists>ok. Smtp Starttls ok \<in> set evs) \<longleftrightarrow> SMTP_PORT cfg = 587 \<and> Smtp Ehlo True \<in> set evs"
  using assms
  by (auto simp add: send_email_def smtp_session_def smtp_call_def Let_def
      split: if_splits option.splits sum.splits)

lemma send_email_rehandshake:
  assumes "truthy (SMTP_PASS cfg)" "truthy (SENDER cfg)" "truthy (RECIPIENT cfg)"
    and "send_email cfg lib smtp subject html_body tr = (r, tr @ evs)"
  shows "Smtp Starttls True \<in> set evs \<longrightarrow> (\<exists>ok. sublist [Smtp Starttls True, Smtp Ehlo ok] evs)"
  using assms
  by (auto simp add: send_email_def smtp_session_def smtp_call_def Let_def sublist_Cons_right
      split: if_splits option.splits sum.splits)

lemma send_email_recipient:
  assumes "truthy (SMTP_PASS cfg)" "truthy (SENDER cfg)" "truthy (RECIPIENT cfg)"
    and "send_email cfg lib smtp subject html_body tr = (r, tr @ evs)"
  shows "\<forall>f rs m ok. Smtp (Sendmail f rs m) ok \<in> set evs \<longrightarrow> rs = [RECIPIENT cfg]"
  using assms
  by (auto simp add: send_email_def smtp_session_def smtp_call_def Let_def
      split: if_splits option.splits sum.splits)

lemma send_email_quit:
  assumes "truthy (SMTP_PASS cfg)" "truthy (SENDER cfg)" "truthy (RECIPIENT cfg)"
    and "send_email cfg lib smtp subject html_body tr = (r, tr @ evs)"
  shows "Smtp (Connect (SMTP_HOST cfg) (SMTP_PORT cfg) 30) True \<in> set evs
           \<longrightarrow> (\<exists>ok. last evs = Smtp Quit ok)"
  using assms
  by (auto simp add: send_email_def smtp_session_def smtp_call_def Let_def
      split: if_splits option.splits sum.splits)

lemma send_email_failure:
  assumes "truthy (SMTP_PASS cfg)" "truthy (SENDER cfg)" "truthy (RECIPIENT cfg)"
    and "send_email cfg lib smtp subject html_body tr = (r, tr @ evs)"
  shows "(\<exists>c. Smtp c False \<in> set evs) \<longrightarrow> (\<exists>c. r = Inl (SMTPException c))"
  using assms
  by (auto simp add: send_email_def smtp_session_def smtp_call_def Let_def
      split: if_splits option.splits sum.splits)

lemma send_email_returns:
  assumes "truthy (SMTP_PASS cfg)" "truthy (SENDER cfg)" "truthy (RECIPIENT cfg)"
    and "send_email cfg lib smtp subject html_body tr = (r, tr @ evs)"
  shows "r = Inr () \<longleftrightarrow>
           MIMEText lib html_body = None
           \<and> (\<exists>text. as_string lib (Email subject (SENDER cfg) (RECIPIENT cfg) html_body) = Inr text)
           \<and> (\<forall>c. Smtp c False \<notin> set evs)"
  using assms
  by (auto simp add: send_email_def smtp_session_def smtp_call_def Let_def
      split: if_splits option.splits sum.splits)

lemma send_email_success:
  assumes "truthy (SMTP_PASS cfg)" "truthy (SENDER cfg)" "truthy (RECIPIENT cfg)"
    and "send_email cfg lib smtp subject html_body tr = (r, tr @ evs)"
  shows "\<forall>text. r = Inr ()
           \<and> as_string lib (Email subject (SENDER cfg) (RECIPIENT cfg) html_body) = Inr text \<longrightarrow>
           evs = map (\<lambda>c. Smtp c True) (session_cmds cfg text)"
  using assms
  by (auto simp add: send_email_def smtp_session_def smtp_call_def Let_def session_cmds_def
      split: if_splits option.splits sum.splits)

lemma send_email_construction:
  assumes "truthy (SMTP_PASS cfg)" "truthy (SENDER cfg)" "truthy (RECIPIENT cfg)"
    and "send_email cfg lib smtp subject html_body tr = (r, tr @ evs)"
  shows "\<forall>e. MIMEText lib html_body = Some e \<longrightarrow> r = Inl e \<and> evs = []"
  using assms by (auto simp add: send_email_def)

lemma send_email_serialisation:
  assumes "truthy (SMTP_PASS cfg)" "truthy (SENDER cfg)" "truthy (RECIPIENT cfg)"
    and "send_email cfg lib smtp subject html_body tr = (r, tr @ evs)"
  shows "\<forall>e. MIMEText lib html_body = None
           \<and> as_string lib (Email subject (SENDER cfg) (RECIPIENT cfg) html_body) = Inl e \<longrightarrow>
           (\<forall>f rs m ok. Smtp (Sendmail f rs m) ok \<notin> set evs) \<and> (\<exists>e'. r = Inl e')"
  using assms
  by (auto simp add: send_email_def smtp_session_def smtp_call_def Let_def
      split: if_splits option.splits sum.splits)

text \<open>
  Claim C9. With sender, recipient and password configured, the calls \<open>send_email\<close>
  makes on the mail server are such that: STARTTLS is called exactly when the port is 587
  and the first handshake succeeded, and a successful STARTTLS is followed by a second
  handshake; every \<open>sendmail\<close> has the configured recipient as its only recipient;
  once the connection is made, \<open>quit\<close> is the last call, whatever happened before;
  a call that fails makes \<open>send_email\<close> end with an exception. \<open>send_email\<close> returns
  normally exactly when the message could be built and written and no call failed, and
  then the calls are those of \<open>session_cmds\<close>, in order. When the message cannot be
  built, the exception ends \<open>send_email\<close> before any connection; when it cannot be
  written, \<open>send_email\<close> ends with an exception and \<open>sendmail\<close> is not called.
\<close>

theorem send_email_session:
  assumes "truthy (SMTP_PASS cfg)" "truthy (SENDER cfg)" "truthy (RECIPIENT cfg)"
    and "send_email cfg lib smtp subject html_body tr = (r, tr')"
  shows "\<exists>evs. tr' = tr @ evs
     \<and> ((\<exists>ok. Smtp Starttls ok \<in> set evs) \<longleftrightarrow> SMTP_PORT cfg = 587 \<and> Smtp Ehlo True \<in> set evs)
     \<and> (Smtp Starttls True \<in> set evs \<longrightarrow> (\<exists>ok. sublist [Smtp Starttls True, Smtp Ehlo ok] evs))
     \<and> (\<forall>f rs m ok. Smtp (Sendmail f rs m) ok \<in> set evs \<longrightarrow> rs = [RECIPIENT cfg])
     \<and> (Smtp (Connect (SMTP_HOST cfg) (SMTP_PORT cfg) 30) True \<in> set evs
           \<longrightarrow> (\<exists>ok. last evs = Smtp Quit ok))
     \<and> ((\<exists>c. Smtp c False \<in> set evs) \<longrightarrow> (\<exists>c. r = Inl (SMTPException c)))
     \<and> (r = Inr () \<longleftrightarrow>
           MIMEText lib html_body = None
           \<and> (\<exists>text. as_string lib (Email subject (SENDER cfg) (RECIPIENT cfg) html_body) = Inr text)
           \<and> (\<forall>c. Smtp c False \<notin> set evs))
     \<and> (\<forall>text. r = Inr ()
           \<and> as_string lib (Email subject (SENDER cfg) (RECIPIENT cfg) html_body) = Inr text \<longrightarrow>
           evs = map (\<lambda>c. Smtp c True) (session_cmds cfg text))
     \<and> (\<forall>e. MIMEText lib html_body = Some e \<longrightarrow> r = Inl e \<and> evs = [])
     \<and> (\<forall>e. MIMEText lib html_body = None
           \<and> as_string lib (Email subject (SENDER cfg) (RECIPIENT cfg) html_body) = Inl e \<longrightarrow>
           (\<forall>f rs m ok. Smtp (Sendmail f rs m) ok \<notin> set evs) \<and> (\<exists>e'. r = Inl e'))"
proof -
  from send_email_trace_prefix [OF assms(4)] obtain evs where e: "tr' = tr @ evs" by blast
  with assms(4) have s: "send_email cfg lib smtp subject html_body tr = (r, tr @ evs)" by simp
  note a = assms(1-3)
  show ?thesis
  proof (intro exI conjI)
    show "tr' = tr @ evs" by (rule e)
  qed (rule send_email_starttls [OF a s] send_email_rehandshake [OF a s]
         send_email_recipient [OF a s] send_email_quit [OF a s] send_email_failure [OF a s]
         send_email_returns [OF a s] send_email_success [OF a s]
         send_email_construction [OF a s] send_email_serialisation [OF a s])+
qed

theorem send_email_session_witness:
  "truthy (SMTP_PASS example_cfg) \<and> truthy (SENDER example_cfg) \<and> truthy (RECIPIENT example_cfg)
   \<and> send_email example_cfg example_mail login_refused ''subject'' ''<html></html>'' [] =
       (Inl (SMTPException (Login (Some ''from@example.org'') (Some ''secret''))),
        [Smtp (Connect ''smtp.gmail.com'' 587 30) True, Smtp Ehlo True, Smtp Starttls True,
         Smtp Ehlo True, Smtp (Login (Some ''from@example.org'') (Some ''secret'')) False,
         Smtp Quit True])
   \<and> (\<exists>ok. Smtp Starttls ok \<in> set
         [Smtp (Connect ''smtp.gmail.com'' 587 30) True, Smtp Ehlo True, Smtp Starttls True,
          Smtp Ehlo True, Smtp (Login (Some ''from@example.org'') (Some ''secret'')) False,
          Smtp Quit True])
   \<and> send_email example_cfg example_mail (\<lambda>tr c. True) (''job'' @ [CHR 0x0A] @ ''digest'')
         ''<html></html>'' [] =
       (Inl HeaderWriteError,
        [Smtp (Connect ''smtp.gmail.com'' 587 30) True, Smtp Ehlo True, Smtp Starttls True,
         Smtp Ehlo True, Smtp (Login (Some ''from@example.org'') (Some ''secret'')) True,
         Smtp Quit True])
   \<and> send_email example_cfg example_mail (\<lambda>tr c. True) ''subject'' ''<html></html>'' [] =
       (Inr (), map (\<lambda>c. Smtp c True) (session_cmds example_cfg ''<html></html>''))"
proof -
  have v: "truthy (SMTP_PASS example_cfg)" "truthy (SENDER example_cfg)"
    "truthy (RECIPIENT example_cfg)"
    by (simp_all add: example_cfg_def)
  have h: "send_email example_cfg example_mail login_refused ''subject'' ''<html></html>'' [] =
       (Inl (SMTPException (Login (Some ''from@example.org'') (Some ''secret''))),
        [Smtp (Connect ''smtp.gmail.com'' 587 30) True, Smtp Ehlo True, Smtp Starttls True,
         Smtp Ehlo True, Smtp (Login (Some ''from@example.org'') (Some ''secret'')) False,
         Smtp Quit True])"
    by (simp add: send_email_def smtp_session_def smtp_call_def login_refused_def example_cfg_def
        example_mail_def)
  have w: "send_email example_cfg example_mail (\<lambda>tr c. True) (''job'' @ [CHR 0x0A] @ ''digest'')
         ''<html></html>'' [] =
       (Inl HeaderWriteError,
        [Smtp (Connect ''smtp.gmail.com'' 587 30) True, Smtp Ehlo True, Smtp Starttls True,
         Smtp Ehlo True, Smtp (Login (Some ''from@example.org'') (Some ''secret'')) True,
         Smtp Quit True])"
    by (simp add: send_email_def smtp_session_def smtp_call_def example_cfg_def example_mail_def)
  have g: "send_email example_cfg example_mail (\<lambda>tr c. True) ''subject'' ''<html></html>'' [] =
       (Inr (), map (\<lambda>c. Smtp c True) (session_cmds example_cfg ''<html></html>''))"
    by (simp add: send_email_def smtp_session_def smtp_call_def example_cfg_def example_mail_def
        session_cmds_def)
  from send_email_session [OF v h] send_email_session [OF v w] send_email_session [OF v g] v h w g
  show ?thesis by (auto simp add: example_cfg_def)
qed

end
